theory Spec2Isabelle
  imports Main "HOL-Library.Word"
begin

section \<open>Errors of the sync service (package utils)\<close>

text \<open>
  A Go \<open>error\<close> value. \<open>SyncError\<close> is the struct of the repository; its \<open>Err\<close> field
  holds the wrapped cause (\<open>None\<close> is Go's \<open>nil\<close>). The other constructors are the
  errors the service receives from outside: the error of a done context, an error built by
  \<open>fmt.Errorf\<close> around a cause, and an error of a library or of the document store.
\<close>

datatype ctx_error = Canceled | DeadlineExceeded

datatype go_error =
    SyncError (Code: string) (Message: string) (Err: "go_error option")
              (StatusCode: int) (ErrOperation: string) (ErrEntity: string)
  | ContextError ctx_error
  | Errorf string go_error
  | ForeignError string

definition ErrCodeKafkaDeserialize :: string where
  "ErrCodeKafkaDeserialize = ''SYNC_KAFKA_003''"

definition ErrCodeESConnection :: string where
  "ErrCodeESConnection = ''SYNC_ES_001''"

definition ErrCodeESIndex :: string where
  "ErrCodeESIndex = ''SYNC_ES_002''"

definition ErrCodeInvalidPayload :: string where
  "ErrCodeInvalidPayload = ''SYNC_DATA_001''"

definition ErrCodeDataTransform :: string where
  "ErrCodeDataTransform = ''SYNC_DATA_003''"

definition ErrCodeRetryExhausted :: string where
  "ErrCodeRetryExhausted = ''SYNC_RETRY_001''"

definition NewSyncError ::
  "string \<Rightarrow> string \<Rightarrow> go_error option \<Rightarrow> string \<Rightarrow> string \<Rightarrow> go_error" where
  "NewSyncError code msg err operation entity = SyncError code msg err 0 operation entity"

definition NewESIndexError :: "string \<Rightarrow> go_error option \<Rightarrow> go_error" where
  "NewESIndexError msg err = SyncError ErrCodeESIndex msg err 500 ''index'' ''elasticsearch''"

text \<open>
  \<open>IsRetryableError\<close>: only a \<open>SyncError\<close> with one of three codes is retryable; any error
  of another dynamic type is not.
\<close>

fun IsRetryableError :: "go_error \<Rightarrow> bool" where
  "IsRetryableError (SyncError code msg err sc operation entity) =
     (code = ErrCodeESIndex \<or> code = ErrCodeESConnection \<or> code = ErrCodeKafkaDeserialize)"
| "IsRetryableError _ = False"

text \<open>
  What a Go function with result type \<open>error\<close> does when it ends: it returns \<open>nil\<close>, it
  returns an error, or it panics.
\<close>

datatype outcome = Success | Failure go_error | Panicked string

section \<open>Data model (package models)\<close>

text \<open>
  A \<open>time.Time\<close>, seen through the calendar of its own location: the year, the month and
  the nanoseconds elapsed since that month began.
\<close>

datatype Month =
  January | February | March | April | May | June
  | July | August | September | October | November | December

record Time =
  Year :: int
  Month :: Month
  InMonth :: nat

definition OperationCreate :: string where "OperationCreate = ''CREATE''"
definition OperationUpdate :: string where "OperationUpdate = ''UPDATE''"
definition OperationDelete :: string where "OperationDelete = ''DELETE''"

definition SyncStatusSuccess :: string where "SyncStatusSuccess = ''SUCCESS''"

record Category =
  ID :: string
  Name :: string
  Description :: string
  Status :: "64 word"
  CreatedAt :: Time
  UpdatedAt :: Time
  Version :: "64 word"
  SyncStatus :: string
  LastSync :: Time

text \<open>
  \<open>Timestamp\<close> is a \<open>time.Time\<close> that the service only ever builds with
  \<open>time.Unix(0, nanos)\<close> and logs; it is kept as that count of nanoseconds.
\<close>

record CategoryOperation =
  Operation :: string
  Payload :: Category
  Timestamp :: "64 word"

definition IsValidOperation :: "string \<Rightarrow> bool" where
  "IsValidOperation op =
     (if op = OperationCreate \<or> op = OperationUpdate \<or> op = OperationDelete then True
      else False)"

section \<open>Index naming\<close>

text \<open>
  The two library functions the naming code calls. \<open>fmt.Sprintf\<close> with the verbs
  \<open>%s\<close> and \<open>%d\<close> writes a string as it is and an integer in decimal.
  \<open>Time.Format\<close> with the layout \<open>2006-01\<close> writes the year padded with zeros to four
  digits, a hyphen, and the month number padded to two digits (\<open>appendInt\<close> of package
  time: a minus sign for a negative value, then the padded digits).
\<close>

fun digits :: "nat \<Rightarrow> string" where
  "digits n =
     (if n < 10 then [''0123456789'' ! n]
      else digits (n div 10) @ [''0123456789'' ! (n mod 10)])"

declare digits.simps [simp del]

definition show_int :: "int \<Rightarrow> string" where
  "show_int x = (if x < 0 then ''-'' @ digits (nat (- x)) else digits (nat x))"

definition appendInt :: "int \<Rightarrow> nat \<Rightarrow> string" where
  "appendInt x width =
     (let ds = digits (nat \<bar>x\<bar>)
      in (if x < 0 then ''-'' else '''') @ replicate (width - length ds) (CHR ''0'') @ ds)"

fun month_number :: "Month \<Rightarrow> int" where
  "month_number January = 1"
| "month_number February = 2"
| "month_number March = 3"
| "month_number April = 4"
| "month_number May = 5"
| "month_number June = 6"
| "month_number July = 7"
| "month_number August = 8"
| "month_number September = 9"
| "month_number October = 10"
| "month_number November = 11"
| "month_number December = 12"

definition Format_2006_01 :: "Time \<Rightarrow> string" where
  "Format_2006_01 t = appendInt (Year t) 4 @ ''-'' @ appendInt (month_number (Month t)) 2"

record IndexNaming =
  Environment :: string
  Service :: string
  Entity :: string
  Date :: Time

definition GetIndexName :: "IndexNaming \<Rightarrow> string" where
  "GetIndexName n =
     Environment n @ ''-'' @ Service n @ ''-'' @ Entity n @ ''-'' @ Format_2006_01 (Date n)"

definition GetAliasName :: "IndexNaming \<Rightarrow> string" where
  "GetAliasName n = Environment n @ ''-'' @ Service n @ ''-'' @ Entity n"

section \<open>The world outside the service\<close>

text \<open>
  The values handed to \<open>encoding/json\<close> for marshalling: a category, the upsert body
  \<open>{"doc": category, "doc_as_upsert": true}\<close> of an update, and the action line
  \<open>{action: {"_index": index, "_id": id}}\<close> of a bulk request.
\<close>

datatype json_val =
    JCategory Category
  | JUpsert Category
  | JAction string string string

text \<open>
  The calls the service makes on its store client, the interface
  \<open>elasticsearch.Repository\<close>: \<open>Index index id body\<close>, \<open>Update index id body\<close>,
  \<open>Delete index id\<close> and \<open>Bulk body\<close>. What the client does with a call, and the error
  it returns, belong to the world.
\<close>

datatype es_call =
    Index string string string
  | Update string string string
  | Delete string string
  | Bulk string

record ConsumerMessage =
  Topic :: string
  Partition :: "32 word"
  Offset :: "64 word"
  Value :: string

text \<open>
  The fields of \<open>DebeziumEvent.Payload\<close> that the consumer reads: the two raw snapshots,
  \<open>source.ts_ms\<close> and \<open>op\<close>.
\<close>

record DebeziumEvent =
  Before :: string
  After :: string
  SourceTimestamp :: "64 word"
  Op :: string

text \<open>
  What can be observed of a run, in the order it happens: \<open>ProcessCategoryOperation\<close> is
  entered, a call is made on the store client, a \<open>select\<close> between \<open>ctx.Done()\<close> and the
  retry timer ends (with the context's error when the context won), \<open>processMessage\<close> has
  returned to the consumer loop, \<open>session.MarkMessage\<close> is called.
\<close>

datatype event =
    Invoked "CategoryOperation option"
  | Store es_call
  | Waited "ctx_error option"
  | Processed ConsumerMessage outcome
  | Marked ConsumerMessage

text \<open>
  Everything the service does not decide itself is a field of the world: the wall clock
  (\<open>clock w k\<close> is what the \<open>k\<close>-th modelled call of \<open>time.Now()\<close> returns), the JSON
  encoder and decoder, the reply of the store client to its \<open>k\<close>-th call, and which side wins
  the \<open>k\<close>-th \<open>select\<close> of the retry loop (\<open>Some e\<close>: the context is done and \<open>ctx.Err()\<close>
  is \<open>e\<close>; \<open>None\<close>: the timer fires), and the label values the metrics client accepts
  (the prometheus client panics on a label value that is not valid UTF-8). The counters
  and the trace are the mutable part. Logging is left out, with the clock reads it makes;
  of the metrics only the panic on a refused label is kept: the labels \<open>category\<close>,
  \<open>success\<close>, \<open>error\<close> and the statuses are constants and always accepted.
\<close>

record world =
  clock :: "nat \<Rightarrow> Time"
  clock_reads :: nat
  marshal :: "json_val \<Rightarrow> go_error + string"
  unmarshal_event :: "string \<Rightarrow> go_error + DebeziumEvent"
  unmarshal_category :: "string \<Rightarrow> go_error + Category"
  store_reply :: "nat \<Rightarrow> es_call \<Rightarrow> go_error option"
  requests :: nat
  ctx_done :: "nat \<Rightarrow> ctx_error option"
  waits :: nat
  label_ok :: "string \<Rightarrow> bool"
  trace :: "event list"

definition Now :: "world \<Rightarrow> Time \<times> world" where
  "Now w = (clock w (clock_reads w), w\<lparr>clock_reads := clock_reads w + 1\<rparr>)"

definition emit :: "event \<Rightarrow> world \<Rightarrow> world" where
  "emit e w = w\<lparr>trace := trace w @ [e]\<rparr>"

definition request :: "es_call \<Rightarrow> world \<Rightarrow> go_error option \<times> world" where
  "request c w =
     (store_reply w (requests w) c, (emit (Store c) w)\<lparr>requests := requests w + 1\<rparr>)"

definition wait :: "world \<Rightarrow> ctx_error option \<times> world" where
  "wait w =
     (ctx_done w (waits w), (emit (Waited (ctx_done w (waits w))) w)\<lparr>waits := waits w + 1\<rparr>)"

section \<open>The sync service (package services)\<close>

text \<open>
  The fields of \<open>SyncService\<close> and of its configuration that the code below reads:
  \<open>config.App.Environment\<close>, \<open>config.Sync.Custom.BatchSize\<close> and \<open>MaxRetries\<close>, the
  mutex \<open>mu\<close> (\<open>True\<close> while it is held) and the bulk buffer.
\<close>

record SyncService =
  AppEnvironment :: string
  BatchSize :: int
  MaxRetries :: int
  mu :: bool
  bulkBuffer :: "CategoryOperation list"

definition validateCategoryFields :: "Category \<Rightarrow> go_error option" where
  "validateCategoryFields category =
     (if Name category = '''' then
        Some (NewSyncError ErrCodeInvalidPayload ''Missing category name'' None
                ''VALIDATE'' ''category'')
      else if Description category = '''' then
        Some (NewSyncError ErrCodeInvalidPayload ''Missing category description'' None
                ''VALIDATE'' ''category'')
      else None)"

definition validateOperation :: "CategoryOperation \<Rightarrow> go_error option" where
  "validateOperation operation =
     (if ID (Payload operation) = '''' then
        Some (NewSyncError ErrCodeInvalidPayload ''Missing category ID'' None
                (Operation operation) ''category'')
      else if Operation operation = OperationCreate \<or> Operation operation = OperationUpdate
      then validateCategoryFields (Payload operation)
      else None)"

definition getCurrentIndexName :: "SyncService \<Rightarrow> string \<Rightarrow> world \<Rightarrow> string \<times> world" where
  "getCurrentIndexName s entity w =
     (case Now w of (now, w1) \<Rightarrow>
        (AppEnvironment s @ ''-'' @ ''digital-discovery'' @ ''-'' @ entity @ ''-''
           @ Format_2006_01 now, w1))"

text \<open>\<open>mustJSON\<close> panics when the encoder fails (\<open>Inl\<close> carries the panic).\<close>

definition mustJSON :: "json_val \<Rightarrow> world \<Rightarrow> string + string" where
  "mustJSON v w =
     (case marshal w v of Inl err \<Rightarrow> Inl ''Failed to marshal JSON'' | Inr b \<Rightarrow> Inr b)"

definition createCategory :: "string \<Rightarrow> Category \<Rightarrow> world \<Rightarrow> outcome \<times> world" where
  "createCategory indexName category0 w =
     (case Now w of (now, w1) \<Rightarrow>
        let category = category0\<lparr>SyncStatus := SyncStatusSuccess, LastSync := now\<rparr>
        in (case mustJSON (JCategory category) w1 of
             Inl p \<Rightarrow> (Panicked p, w1)
           | Inr body \<Rightarrow>
               (case request (Index indexName (ID category) body) w1 of
                  (Some err, w2) \<Rightarrow>
                    (Failure (NewESIndexError ''Failed to index category'' (Some err)), w2)
                | (None, w2) \<Rightarrow> (Success, w2))))"

definition updateCategory :: "string \<Rightarrow> Category \<Rightarrow> world \<Rightarrow> outcome \<times> world" where
  "updateCategory indexName category0 w =
     (case Now w of (now, w1) \<Rightarrow>
        let category = category0\<lparr>SyncStatus := SyncStatusSuccess, LastSync := now\<rparr>
        in (case mustJSON (JUpsert category) w1 of
             Inl p \<Rightarrow> (Panicked p, w1)
           | Inr body \<Rightarrow>
               (case request (Update indexName (ID category) body) w1 of
                  (Some err, w2) \<Rightarrow>
                    (Failure (NewESIndexError ''Failed to update category'' (Some err)), w2)
                | (None, w2) \<Rightarrow> (Success, w2))))"

definition deleteCategory :: "string \<Rightarrow> string \<Rightarrow> world \<Rightarrow> outcome \<times> world" where
  "deleteCategory indexName ident w =
     (case request (Delete indexName ident) w of
        (Some err, w1) \<Rightarrow> (Failure (NewESIndexError ''Failed to delete category'' (Some err)), w1)
      | (None, w1) \<Rightarrow> (Success, w1))"

definition processOperation :: "string \<Rightarrow> CategoryOperation \<Rightarrow> world \<Rightarrow> outcome \<times> world" where
  "processOperation indexName operation w =
     (if Operation operation = OperationCreate then
        createCategory indexName (Payload operation) w
      else if Operation operation = OperationUpdate then
        updateCategory indexName (Payload operation) w
      else if Operation operation = OperationDelete then
        deleteCategory indexName (ID (Payload operation)) w
      else (Failure (NewSyncError ErrCodeInvalidPayload ''Invalid operation'' None
                       (Operation operation) ''category''), w))"

text \<open>
  The deferred function of \<open>ProcessCategoryOperation\<close>, registered once the operation has
  passed validation: \<open>metrics.RecordError\<close> and \<open>metrics.RecordOperation\<close> use the
  operation's name as a label value, and panic when the metrics client refuses it. It
  runs when the body returns and when the body panics.
\<close>

definition deferred_metrics :: "CategoryOperation \<Rightarrow> outcome \<times> world \<Rightarrow> outcome \<times> world" where
  "deferred_metrics operation rw =
     (if label_ok (snd rw) (Operation operation) then rw
      else (Panicked ''label value is not valid UTF-8'', snd rw))"

text \<open>
  \<open>ProcessCategoryOperation\<close> takes a pointer, which may be \<open>nil\<close> (\<open>None\<close>). Its entry is
  recorded in the trace.
\<close>

definition ProcessCategoryOperation ::
  "SyncService \<Rightarrow> CategoryOperation option \<Rightarrow> world \<Rightarrow> outcome \<times> world" where
  "ProcessCategoryOperation s operation w0 =
     (let w = emit (Invoked operation) w0
      in (case operation of
           None \<Rightarrow>
             (Failure (NewSyncError ErrCodeInvalidPayload ''Operation cannot be nil'' None
                         ''VALIDATE'' ''category''), w)
         | Some op \<Rightarrow>
             (case validateOperation op of
                Some err \<Rightarrow> (Failure err, w)
              | None \<Rightarrow>
                  (case getCurrentIndexName s ''categories'' w of (indexName, w1) \<Rightarrow>
                     deferred_metrics op
                       (if Operation op = OperationCreate \<or> Operation op = OperationUpdate
                           \<or> Operation op = OperationDelete
                        then processOperation indexName op w1
                        else (Failure (NewSyncError ErrCodeInvalidPayload
                                         (''Unknown operation: '' @ Operation op) None
                                         (Operation op) ''category''), w1))))))"

subsection \<open>Bulk buffer\<close>

text \<open>
  \<open>sync.RWMutex\<close> is not reentrant: \<open>Lock\<close> on a held mutex waits until it is released.
  \<open>Lock\<close> returns \<open>None\<close> when the mutex is held, and a function that reaches such a
  \<open>Lock\<close> has the result \<open>None\<close>: it is still waiting, and it does not return unless
  another goroutine releases the mutex (no code of the service releases a mutex it does
  not hold).
\<close>

definition Lock :: "SyncService \<Rightarrow> SyncService option" where
  "Lock s = (if mu s then None else Some (s\<lparr>mu := True\<rparr>))"

definition Unlock :: "SyncService \<Rightarrow> SyncService" where
  "Unlock s = s\<lparr>mu := False\<rparr>"

text \<open>
  The loop of \<open>processBulkOperations\<close> over the buffer. \<open>Encoder.Encode\<close> appends the
  encoding of the value and a newline to \<open>buf\<close>, or fails and appends nothing.
\<close>

fun encodeBulk ::
  "SyncService \<Rightarrow> CategoryOperation list \<Rightarrow> string \<Rightarrow> world \<Rightarrow> (go_error + string) \<times> world"
where
  "encodeBulk s [] buf w = (Inr buf, w)"
| "encodeBulk s (op # ops) buf w =
     (if Operation op = OperationCreate \<or> Operation op = OperationUpdate
         \<or> Operation op = OperationDelete
      then
        (let action = (if Operation op = OperationCreate then ''index''
                       else if Operation op = OperationUpdate then ''update''
                       else ''delete'');
             r = getCurrentIndexName s ''categories'' w;
             indexName = fst r;
             w1 = snd r
         in (case marshal w1 (JAction action indexName (ID (Payload op))) of
               Inl err \<Rightarrow> (Inl (Errorf ''failed to encode action line'' err), w1)
             | Inr line \<Rightarrow>
                 (if Operation op \<noteq> OperationDelete then
                    (case marshal w1 (if Operation op = OperationUpdate
                                      then JUpsert (Payload op)
                                      else JCategory (Payload op)) of
                       Inl err \<Rightarrow> (Inl (Errorf ''failed to encode payload'' err), w1)
                     | Inr doc \<Rightarrow>
                         encodeBulk s ops (buf @ line @ [CHR 0x0A] @ doc @ [CHR 0x0A]) w1)
                  else encodeBulk s ops (buf @ line @ [CHR 0x0A]) w1)))
      else encodeBulk s ops buf w)"

definition processBulkOperations ::
  "SyncService \<Rightarrow> world \<Rightarrow> (outcome \<times> SyncService \<times> world) option" where
  "processBulkOperations s w =
     (case Lock s of
        None \<Rightarrow> None
      | Some s1 \<Rightarrow>
          if bulkBuffer s1 = [] then Some (Success, Unlock s1, w)
          else
            (case encodeBulk s1 (bulkBuffer s1) [] w of
               (Inl err, w1) \<Rightarrow> Some (Failure err, Unlock s1, w1)
             | (Inr buf, w1) \<Rightarrow>
                 (case request (Bulk buf) w1 of
                    (Some err, w2) \<Rightarrow>
                      Some (Failure (NewESIndexError ''Bulk operation failed'' (Some err)),
                            Unlock s1, w2)
                  | (None, w2) \<Rightarrow> Some (Success, Unlock (s1\<lparr>bulkBuffer := []\<rparr>), w2))))"

definition canBulkOperation :: "CategoryOperation \<Rightarrow> bool" where
  "canBulkOperation operation = IsValidOperation (Operation operation)"

definition FlushBulkBuffer ::
  "SyncService \<Rightarrow> world \<Rightarrow> (outcome \<times> SyncService \<times> world) option" where
  "FlushBulkBuffer s w = processBulkOperations s w"

definition AddToBulkBuffer ::
  "SyncService \<Rightarrow> CategoryOperation \<Rightarrow> world \<Rightarrow> (outcome \<times> SyncService \<times> world) option" where
  "AddToBulkBuffer s operation w =
     (if \<not> canBulkOperation operation then
        Some (Failure (NewSyncError ErrCodeInvalidPayload
                         ''Operation not supported for bulk processing'' None
                         (Operation operation) ''category''), s, w)
      else
        (case Lock s of
           None \<Rightarrow> None
         | Some s1 \<Rightarrow>
             (let s2 = s1\<lparr>bulkBuffer := bulkBuffer s1 @ [operation]\<rparr>
              in if BatchSize s2 \<le> int (length (bulkBuffer s2)) then
                   (case FlushBulkBuffer s2 w of
                      None \<Rightarrow> None
                    | Some (r, s3, w1) \<Rightarrow> Some (r, Unlock s3, w1))
                 else Some (Success, Unlock s2, w))))"

subsection \<open>Retry service\<close>

text \<open>
  Of \<open>RetryAttempt\<close> and \<open>RetryHistory\<close> the attempt number, the attempt's error and the
  status are kept; the other fields are times and names that are only logged.
  \<open>calculateNextDelay\<close> computes, in floating point and with a random jitter, the
  duration handed to \<open>time.After\<close>; the duration decides nothing but when the timer of
  the \<open>select\<close> fires, which is \<open>ctx_done\<close> of the world.
\<close>

record RetryAttempt =
  Attempt :: int
  Error :: "go_error option"

record RetryHistory =
  Attempts :: "RetryAttempt list"
  HistoryStatus :: string

text \<open>
  The \<open>for\<close> loop of \<open>RetryWithBackoff\<close>, with its local variables \<open>attempt\<close>, \<open>lastErr\<close>
  and \<open>history\<close>. \<open>attempt\<close> is a Go \<open>int\<close>; it stays below \<open>MaxRetries\<close>, so it never
  wraps.
\<close>

function retry_loop ::
  "SyncService \<Rightarrow> CategoryOperation \<Rightarrow> int \<Rightarrow> go_error option \<Rightarrow> RetryHistory \<Rightarrow> world
     \<Rightarrow> outcome \<times> RetryHistory \<times> world"
where
  "retry_loop s operation attempt lastErr history w =
     (if attempt < MaxRetries s then
        (case ProcessCategoryOperation s (Some operation) w of
           (Panicked p, w1) \<Rightarrow> (Panicked p, history, w1)
         | (Success, w1) \<Rightarrow>
             (Success,
              history\<lparr>HistoryStatus := ''SUCCESS'',
                      Attempts := Attempts history @ [\<lparr>Attempt = attempt + 1, Error = None\<rparr>]\<rparr>,
              w1)
         | (Failure err, w1) \<Rightarrow>
             (let history1 =
                    history\<lparr>Attempts :=
                      Attempts history @ [\<lparr>Attempt = attempt + 1, Error = Some err\<rparr>]\<rparr>
              in (case wait w1 of
                    (Some c, w2) \<Rightarrow>
                      (Failure (ContextError c), history1\<lparr>HistoryStatus := ''CANCELLED''\<rparr>, w2)
                  | (None, w2) \<Rightarrow>
                      retry_loop s operation (attempt + 1) (Some err) history1 w2)))
      else
        (Failure (NewSyncError ErrCodeRetryExhausted
                    (''Max retries ('' @ show_int (MaxRetries s) @ '') reached'')
                    lastErr (Operation operation) ''category''),
         history\<lparr>HistoryStatus := ''FAILED''\<rparr>, w))"
  by pat_completeness auto
termination
  by (relation "measure (\<lambda>(s, operation, attempt, lastErr, history, w).
                   nat (MaxRetries s - attempt))") auto

declare retry_loop.simps [simp del]

text \<open>
  The deferred \<open>cleanup\<close>: for a history with status \<open>FAILED\<close>, \<open>recordFailedAttempt\<close>
  reads the last attempt and its error, and panics when there is none.
\<close>

definition recordFailedAttempt :: "RetryHistory \<Rightarrow> string option" where
  "recordFailedAttempt history =
     (if Attempts history = [] then Some ''index out of range''
      else (case Error (last (Attempts history)) of
              None \<Rightarrow> Some ''nil pointer dereference''
            | Some err \<Rightarrow> None))"

definition cleanup :: "RetryHistory \<Rightarrow> string option" where
  "cleanup history =
     (if HistoryStatus history = ''FAILED'' then recordFailedAttempt history else None)"

definition RetryWithBackoff ::
  "SyncService \<Rightarrow> CategoryOperation option \<Rightarrow> world \<Rightarrow> outcome \<times> world" where
  "RetryWithBackoff s operation w =
     (case operation of
        None \<Rightarrow> (Panicked ''nil pointer dereference'', w)
      | Some op \<Rightarrow>
          (case retry_loop s op 0 None \<lparr>Attempts = [], HistoryStatus = ''IN_PROGRESS''\<rparr> w of
             (r, history, w1) \<Rightarrow>
               (case cleanup history of
                  Some p \<Rightarrow> (Panicked p, w1)
                | None \<Rightarrow> (r, w1))))"

definition RetryOperation ::
  "SyncService \<Rightarrow> CategoryOperation option \<Rightarrow> world \<Rightarrow> outcome \<times> world" where
  "RetryOperation s operation w = RetryWithBackoff s operation w"

section \<open>The consumer (package consumers)\<close>

definition mapOperation :: "string \<Rightarrow> string" where
  "mapOperation op =
     (if op = ''c'' then ''CREATE''
      else if op = ''u'' then ''UPDATE''
      else if op = ''d'' then ''DELETE''
      else ''UNKNOWN'')"

definition validateMessage :: "DebeziumEvent \<Rightarrow> go_error option" where
  "validateMessage ev =
     (if SourceTimestamp ev = 0 then
        Some (NewSyncError ErrCodeInvalidPayload ''Missing timestamp in event'' None
                ''VALIDATE'' ''message'')
      else if Op ev = '''' then
        Some (NewSyncError ErrCodeInvalidPayload ''Missing operation in event'' None
                ''VALIDATE'' ''message'')
      else None)"

text \<open>
  The end of \<open>processMessage\<close>, once the category is decoded: build the operation,
  dispatch it, and hand a retryable failure to the retry service.
\<close>

definition dispatch ::
  "SyncService \<Rightarrow> string \<Rightarrow> Category \<Rightarrow> DebeziumEvent \<Rightarrow> world \<Rightarrow> outcome \<times> world" where
  "dispatch s operation category ev w =
     (let categoryOp = \<lparr>Operation = operation, Payload = category,
                         Timestamp = SourceTimestamp ev * 1000000\<rparr>
      in (case ProcessCategoryOperation s (Some categoryOp) w of
            (Failure err, w1) \<Rightarrow>
              if IsRetryableError err then RetryOperation s (Some categoryOp) w1
              else (Failure err, w1)
          | (r, w1) \<Rightarrow> (r, w1)))"

definition processMessage :: "SyncService \<Rightarrow> ConsumerMessage \<Rightarrow> world \<Rightarrow> outcome \<times> world" where
  "processMessage s message w =
     (case unmarshal_event w (Value message) of
        Inl err \<Rightarrow>
          (Failure (NewSyncError ErrCodeKafkaDeserialize ''Invalid message format'' (Some err)
                      ''DESERIALIZE'' ''message''), w)
      | Inr ev \<Rightarrow>
          (case validateMessage ev of
             Some err \<Rightarrow> (Failure err, w)
           | None \<Rightarrow>
               (let operation = mapOperation (Op ev)
                in if operation = OperationCreate \<or> operation = OperationUpdate then
                     (case unmarshal_category w (After ev) of
                        Inl err \<Rightarrow>
                          (Failure (NewSyncError ErrCodeDataTransform
                                      ''Failed to unmarshal category'' (Some err)
                                      operation ''category''), w)
                      | Inr category \<Rightarrow> dispatch s operation category ev w)
                   else if operation = OperationDelete then
                     (case unmarshal_category w (Before ev) of
                        Inl err \<Rightarrow>
                          (Failure (NewSyncError ErrCodeDataTransform
                                      ''Failed to unmarshal category'' (Some err)
                                      operation ''category''), w)
                      | Inr category \<Rightarrow> dispatch s operation category ev w)
                   else
                     (Failure (NewSyncError ErrCodeInvalidPayload
                                 (''Unknown operation: '' @ operation) None
                                 operation ''category''), w))))"

text \<open>
  What the \<open>select\<close> of \<open>ConsumeClaim\<close> receives, one after the other: a message of the
  claim, the closing of the claim's channel, or the end of the session's context. When
  nothing more arrives the loop waits for ever (\<open>None\<close>).
\<close>

datatype claim_event = Message ConsumerMessage | ChannelClosed | SessionDone


section \<open>Reading a run\<close>

text \<open>
  Predicates on the events of a trace: the entry of \<open>ProcessCategoryOperation\<close>, the two
  events of the consumer loop, and a request to the store.
\<close>

fun invoked :: "event \<Rightarrow> bool" where
  "invoked (Invoked operation) = True"
| "invoked _ = False"

fun consumer_event :: "event \<Rightarrow> bool" where
  "consumer_event (Processed m r) = True"
| "consumer_event (Marked m) = True"
| "consumer_event _ = False"

fun store_event :: "event \<Rightarrow> bool" where
  "store_event (Store c) = True"
| "store_event _ = False"

text \<open>
  The error \<open>RetryWithBackoff\<close> builds when the attempts are used up, and the history
  after one more attempt has been appended to it.
\<close>

definition exhausted :: "SyncService \<Rightarrow> CategoryOperation \<Rightarrow> go_error option \<Rightarrow> go_error" where
  "exhausted s operation lastErr =
     NewSyncError ErrCodeRetryExhausted
       (''Max retries ('' @ show_int (MaxRetries s) @ '') reached'')
       lastErr (Operation operation) ''category''"

definition attempted :: "RetryHistory \<Rightarrow> int \<Rightarrow> go_error option \<Rightarrow> RetryHistory" where
  "attempted h attempt err =
     h\<lparr>Attempts := Attempts h @ [\<lparr>Attempt = attempt + 1, Error = err\<rparr>]\<rparr>"

text \<open>
  What a run of the retry loop leaves behind, started at \<open>attempt\<close> with \<open>lastErr\<close> and
  a history of status \<open>st\<close>: \<open>new\<close> are the attempts it appended, \<open>r\<close> its result and
  \<open>st'\<close> the status at the end. At most \<open>MaxRetries - attempt\<close> attempts are appended;
  only the last one can be a success, and it is one exactly when the result is \<open>nil\<close>;
  an error result is either the context's error, after at least one attempt, or the
  exhaustion error carrying the error of the last attempt, after all the attempts.
\<close>

definition retry_post ::
  "SyncService \<Rightarrow> CategoryOperation \<Rightarrow> int \<Rightarrow> go_error option \<Rightarrow> RetryAttempt list
     \<Rightarrow> string \<Rightarrow> outcome \<Rightarrow> string \<Rightarrow> bool" where
  "retry_post s operation attempt lastErr new st r st' \<longleftrightarrow>
     length new \<le> nat (MaxRetries s - attempt)
     \<and> (\<forall>a\<in>set (butlast new). Error a \<noteq> None)
     \<and> (case r of
          Success \<Rightarrow> new \<noteq> [] \<and> Error (last new) = None \<and> st' = ''SUCCESS''
        | Panicked p \<Rightarrow> (\<forall>a\<in>set new. Error a \<noteq> None)
              \<and> length new < nat (MaxRetries s - attempt) \<and> st' = st
        | Failure e \<Rightarrow> (\<forall>a\<in>set new. Error a \<noteq> None)
              \<and> ((\<exists>c. e = ContextError c) \<and> new \<noteq> [] \<and> st' = ''CANCELLED''
                  \<or> e = exhausted s operation (if new = [] then lastErr else Error (last new))
                    \<and> length new = nat (MaxRetries s - attempt)
                    \<and> st' = ''FAILED''))"

text \<open>
  The events \<open>tr\<close> of such a run with \<open>n\<close> recorded attempts: none is an event of the
  consumer loop; the dispatcher is entered once per recorded attempt, and once more when
  the run ends in a panic; a wait that the context wins is the last event and makes the
  context's error the result; and the context's error is the result only then.
\<close>

definition retry_events ::
  "CategoryOperation \<Rightarrow> nat \<Rightarrow> event list \<Rightarrow> outcome \<Rightarrow> bool" where
  "retry_events operation n tr r \<longleftrightarrow>
     (\<forall>e\<in>set tr. \<not> consumer_event e)
     \<and> filter invoked tr =
         replicate (n + (case r of Panicked p \<Rightarrow> 1 | _ \<Rightarrow> 0)) (Invoked (Some operation))
     \<and> (\<forall>pre c post. tr = pre @ Waited (Some c) # post \<longrightarrow>
           post = [] \<and> r = Failure (ContextError c))
     \<and> (\<forall>c. r = Failure (ContextError c) \<longrightarrow> tr \<noteq> [] \<and> last tr = Waited (Some c))"



text \<open>
  The values the loop of \<open>processBulkOperations\<close> hands to the encoder, in the order of
  the buffer, when no encoding fails: for each buffered operation with a known name its
  action line, with the index name read from the clock at that moment, followed by its
  document unless it is a delete. Then the message of the error the loop returns when
  the encoding of a value fails, and the line (encoding and newline) a value adds to the
  body when it succeeds.
\<close>

fun bulk_lines :: "SyncService \<Rightarrow> CategoryOperation list \<Rightarrow> world \<Rightarrow> json_val list" where
  "bulk_lines s [] w = []"
| "bulk_lines s (op # ops) w =
     (if Operation op = OperationCreate then
        JAction ''index'' (fst (getCurrentIndexName s ''categories'' w)) (ID (Payload op))
          # JCategory (Payload op)
          # bulk_lines s ops (snd (getCurrentIndexName s ''categories'' w))
      else if Operation op = OperationUpdate then
        JAction ''update'' (fst (getCurrentIndexName s ''categories'' w)) (ID (Payload op))
          # JUpsert (Payload op)
          # bulk_lines s ops (snd (getCurrentIndexName s ''categories'' w))
      else if Operation op = OperationDelete then
        JAction ''delete'' (fst (getCurrentIndexName s ''categories'' w)) (ID (Payload op))
          # bulk_lines s ops (snd (getCurrentIndexName s ''categories'' w))
      else bulk_lines s ops w)"

fun encode_failure :: "json_val \<Rightarrow> string" where
  "encode_failure (JAction action index ident) = ''failed to encode action line''"
| "encode_failure _ = ''failed to encode payload''"

definition encoded :: "world \<Rightarrow> json_val \<Rightarrow> string" where
  "encoded w v = (case marshal w v of Inl err \<Rightarrow> [] | Inr b \<Rightarrow> b @ [CHR 0x0A])"

section \<open>Example inputs\<close>

text \<open>
  Concrete values on which the theorems below are instantiated: an instant in April 2025,
  a category without description, services with three retries and with one, and a
  service with two buffered operations. In the world \<open>calm\<close> the store accepts every
  request, the context never ends, the encoder always succeeds, the metrics client
  accepts every label and the decoder reads the raw bytes of a message as its operation
  code (no bytes at all do not parse); in \<open>stormy\<close> the store refuses every request; in
  \<open>cancelled\<close> the context, in addition, is done at every wait; in \<open>brittle\<close> the
  encoder fails on every category document.
\<close>

definition april_2025 :: Time where
  "april_2025 = \<lparr>Year = 2025, Month = April, InMonth = 1234\<rparr>"

definition pulsa :: Category where
  "pulsa = \<lparr>ID = ''c1'', Name = ''Pulsa'', Description = '''', Status = 1,
             CreatedAt = april_2025, UpdatedAt = april_2025, Version = 1,
             SyncStatus = '''', LastSync = april_2025\<rparr>"

definition create_pulsa :: CategoryOperation where
  "create_pulsa = \<lparr>Operation = OperationCreate,
                    Payload = pulsa\<lparr>Description := ''new''\<rparr>, Timestamp = 1000000\<rparr>"

definition delete_pulsa :: CategoryOperation where
  "delete_pulsa = \<lparr>Operation = OperationDelete,
                    Payload = pulsa\<lparr>Description := ''old''\<rparr>, Timestamp = 1000000\<rparr>"

definition prod_service :: SyncService where
  "prod_service = \<lparr>AppEnvironment = ''prod'', BatchSize = 2, MaxRetries = 3,
                    mu = False, bulkBuffer = []\<rparr>"

definition one_try :: SyncService where
  "one_try = prod_service\<lparr>MaxRetries := 1\<rparr>"

definition two_buffered :: SyncService where
  "two_buffered = prod_service\<lparr>BatchSize := 5, bulkBuffer := [create_pulsa, delete_pulsa]\<rparr>"

definition render :: "json_val \<Rightarrow> string" where
  "render v =
     (case v of
        JCategory c \<Rightarrow> ''{id:'' @ ID c @ '',sync_status:'' @ SyncStatus c @ ''}''
      | JUpsert c \<Rightarrow> ''{doc:{id:'' @ ID c @ ''},doc_as_upsert:true}''
      | JAction a i d \<Rightarrow> ''{'' @ a @ '':{_index:'' @ i @ '',_id:'' @ d @ ''}}'')"

definition calm :: world where
  "calm = \<lparr>clock = (\<lambda>k. april_2025), clock_reads = 0,
            marshal = (\<lambda>v. Inr (render v)),
            unmarshal_event =
              (\<lambda>b. if b = '''' then Inl (ForeignError ''unexpected end of JSON input'')
                    else Inr \<lparr>Before = ''old'', After = ''new'', SourceTimestamp = 1, Op = b\<rparr>),
            unmarshal_category = (\<lambda>b. Inr (pulsa\<lparr>Description := b\<rparr>)),
            store_reply = (\<lambda>k c. None), requests = 0,
            ctx_done = (\<lambda>k. None), waits = 0, label_ok = (\<lambda>l. True), trace = []\<rparr>"

definition stormy :: world where
  "stormy = calm\<lparr>store_reply := (\<lambda>k c. Some (ForeignError ''connection refused''))\<rparr>"

definition cancelled :: world where
  "cancelled = stormy\<lparr>ctx_done := (\<lambda>k. Some Canceled)\<rparr>"

definition brittle :: world where
  "brittle = calm\<lparr>marshal :=
     (\<lambda>v. case v of
            JCategory c \<Rightarrow> Inl (ForeignError ''year outside of range [0,9999]'')
          | JUpsert c \<Rightarrow> Inr (render v)
          | JAction a i d \<Rightarrow> Inr (render v))\<rparr>"




section \<open>Properties\<close>

lemmas ErrCode_defs =
  ErrCodeKafkaDeserialize_def ErrCodeESConnection_def ErrCodeESIndex_def
  ErrCodeInvalidPayload_def ErrCodeDataTransform_def ErrCodeRetryExhausted_def

lemmas Operation_defs = OperationCreate_def OperationUpdate_def OperationDelete_def

lemma trace_emit [simp]: "trace (emit e w) = trace w @ [e]"
  by (simp add: emit_def)

subsection \<open>Validation of an operation\<close>

lemma validateOperation_None_iff:
  "validateOperation operation = None \<longleftrightarrow>
     ID (Payload operation) \<noteq> '''' \<and>
     (Operation operation = OperationCreate \<or> Operation operation = OperationUpdate \<longrightarrow>
        Name (Payload operation) \<noteq> '''' \<and> Description (Payload operation) \<noteq> '''')"
  by (simp add: validateOperation_def validateCategoryFields_def)

text \<open>
  Claim C2 says that a Create or Update operation with a non-empty id and a non-empty
  name passes validation whether or not its description is empty. The code rejects the
  Create operation for the category \<open>pulsa\<close>, whose id and name are non-empty and whose
  description is empty, with the error \<open>Missing category description\<close>.
\<close>

theorem description_required_by_validation:
  "validateOperation \<lparr>Operation = OperationCreate, Payload = pulsa, Timestamp = 0\<rparr>
     = Some (NewSyncError ErrCodeInvalidPayload ''Missing category description'' None
               ''VALIDATE'' ''category'')"
  by (simp add: validateOperation_def validateCategoryFields_def pulsa_def)

subsection \<open>Index names\<close>

text \<open>
  Claim C9: for environment \<open>prod\<close>, service \<open>digital-discovery\<close>, entity \<open>categories\<close> and
  any time \<open>t\<close> in April 2025, the index name is \<open>prod-digital-discovery-categories-2025-04\<close>
  and the alias is \<open>prod-digital-discovery-categories\<close>; the service's own
  \<open>getCurrentIndexName\<close> gives the same name when the clock reads \<open>t\<close>; and two namings
  that agree on environment, service, entity and on the year and month of their date
  have the same index name and the same alias.
\<close>

theorem index_name_resolution:
  assumes "Year t = 2025" and "Month t = April"
  shows "GetIndexName \<lparr>Environment = ''prod'', Service = ''digital-discovery'',
                        Entity = ''categories'', Date = t\<rparr>
           = ''prod-digital-discovery-categories-2025-04''
       \<and> GetAliasName \<lparr>Environment = ''prod'', Service = ''digital-discovery'',
                        Entity = ''categories'', Date = t\<rparr>
           = ''prod-digital-discovery-categories''
       \<and> (AppEnvironment s = ''prod'' \<and> clock w (clock_reads w) = t \<longrightarrow>
           fst (getCurrentIndexName s ''categories'' w)
             = ''prod-digital-discovery-categories-2025-04'')
       \<and> (Environment n = Environment n' \<and> Service n = Service n' \<and> Entity n = Entity n' \<and>
           Year (Date n) = Year (Date n') \<and> Month (Date n) = Month (Date n') \<longrightarrow>
           GetIndexName n = GetIndexName n' \<and> GetAliasName n = GetAliasName n')"
proof -
  have fmt: "Format_2006_01 t = ''2025-04''"
    using assms by (simp add: Format_2006_01_def appendInt_def digits.simps)
  have full: "GetIndexName \<lparr>Environment = ''prod'', Service = ''digital-discovery'',
                        Entity = ''categories'', Date = t\<rparr>
           = ''prod-digital-discovery-categories-2025-04''"
    by (simp add: GetIndexName_def fmt)
  have short: "GetAliasName \<lparr>Environment = ''prod'', Service = ''digital-discovery'',
                        Entity = ''categories'', Date = t\<rparr>
           = ''prod-digital-discovery-categories''"
    by (simp add: GetAliasName_def)
  have current: "AppEnvironment s = ''prod'' \<and> clock w (clock_reads w) = t \<longrightarrow>
           fst (getCurrentIndexName s ''categories'' w)
             = ''prod-digital-discovery-categories-2025-04''"
    by (simp add: getCurrentIndexName_def Now_def fmt)
  have det: "Environment n = Environment n' \<and> Service n = Service n' \<and> Entity n = Entity n' \<and>
           Year (Date n) = Year (Date n') \<and> Month (Date n) = Month (Date n') \<longrightarrow>
           GetIndexName n = GetIndexName n' \<and> GetAliasName n = GetAliasName n'"
    by (simp add: GetIndexName_def GetAliasName_def Format_2006_01_def)
  from full short current det show ?thesis by blast
qed

theorem index_name_resolution_witness:
  "GetIndexName \<lparr>Environment = ''prod'', Service = ''digital-discovery'',
                  Entity = ''categories'', Date = april_2025\<rparr>
     = ''prod-digital-discovery-categories-2025-04''
   \<and> GetAliasName \<lparr>Environment = ''prod'', Service = ''digital-discovery'',
                  Entity = ''categories'', Date = april_2025\<rparr>
     = ''prod-digital-discovery-categories''
   \<and> fst (getCurrentIndexName prod_service ''categories'' calm)
     = ''prod-digital-discovery-categories-2025-04''"
  using index_name_resolution [of april_2025 prod_service calm]
  by (simp add: april_2025_def calm_def prod_service_def)

subsection \<open>The document of a Create or Update write\<close>




subsection \<open>Messages with an unknown operation code\<close>

lemma mapOperation_unknown:
  "op \<noteq> ''c'' \<Longrightarrow> op \<noteq> ''u'' \<Longrightarrow> op \<noteq> ''d'' \<Longrightarrow> mapOperation op = ''UNKNOWN''"
  by (simp add: mapOperation_def)

text \<open>
  Claim C7: for a message that decodes to an envelope whose \<open>op\<close> is none of \<open>c\<close>, \<open>u\<close>,
  \<open>d\<close>, the code is mapped to \<open>UNKNOWN\<close>, and \<open>processMessage\<close> returns an error with the
  code \<open>ErrCodeInvalidPayload\<close>, which is not retryable, and leaves the world as it was:
  the dispatcher is not entered and no request is sent to the store. When the envelope
  passes \<open>validateMessage\<close>, the error is the one for an unknown operation.
\<close>

theorem unknown_op_rejected:
  assumes parsed: "unmarshal_event w (Value m) = Inr ev"
      and unknown: "Op ev \<noteq> ''c''" "Op ev \<noteq> ''u''" "Op ev \<noteq> ''d''"
  shows "mapOperation (Op ev) = ''UNKNOWN''
       \<and> (\<exists>msg operation entity.
             processMessage s m w =
               (Failure (NewSyncError ErrCodeInvalidPayload msg None operation entity), w)
             \<and> \<not> IsRetryableError (NewSyncError ErrCodeInvalidPayload msg None operation entity)
             \<and> (validateMessage ev = None \<longrightarrow>
                  msg = ''Unknown operation: UNKNOWN'' \<and> operation = ''UNKNOWN''
                  \<and> entity = ''category''))"
proof -
  have mapped: "mapOperation (Op ev) = ''UNKNOWN''"
    using unknown by (rule mapOperation_unknown)
  have fatal: "\<not> IsRetryableError (NewSyncError ErrCodeInvalidPayload msg None operation entity)"
    for msg operation entity
    by (simp add: NewSyncError_def ErrCode_defs)
  show ?thesis
  proof (cases "validateMessage ev")
    case None
    then have "processMessage s m w =
        (Failure (NewSyncError ErrCodeInvalidPayload ''Unknown operation: UNKNOWN'' None
                    ''UNKNOWN'' ''category''), w)"
      using parsed mapped by (simp add: processMessage_def Operation_defs Let_def)
    with mapped fatal show ?thesis by blast
  next
    case (Some err)
    then obtain msg where err: "err = NewSyncError ErrCodeInvalidPayload msg None
                                        ''VALIDATE'' ''message''"
      by (auto simp: validateMessage_def split: if_splits)
    have "processMessage s m w = (Failure err, w)"
      using parsed Some by (simp add: processMessage_def)
    with mapped fatal err Some show ?thesis by auto
  qed
qed

theorem unknown_op_rejected_witness:
  "mapOperation ''r'' = ''UNKNOWN''
   \<and> processMessage prod_service
        \<lparr>Topic = ''categories'', Partition = 0, Offset = 7, Value = ''r''\<rparr> calm
       = (Failure (NewSyncError ErrCodeInvalidPayload ''Unknown operation: UNKNOWN'' None
                     ''UNKNOWN'' ''category''), calm)"
  using unknown_op_rejected [of calm
      "\<lparr>Topic = ''categories'', Partition = 0, Offset = 7, Value = ''r''\<rparr>"
      "\<lparr>Before = ''old'', After = ''new'', SourceTimestamp = 1, Op = ''r''\<rparr>"
      prod_service]
  by (simp add: calm_def validateMessage_def)

subsection \<open>The examples, evaluated\<close>

lemma format_april: "Format_2006_01 april_2025 = ''2025-04''"
  by (simp add: Format_2006_01_def appendInt_def april_2025_def digits.simps)

lemmas world_defs = calm_def stormy_def cancelled_def


lemma stormy_facts:
  "clock stormy = (\<lambda>k. april_2025)" "marshal stormy = (\<lambda>v. Inr (render v))"
  "store_reply stormy = (\<lambda>k c. Some (ForeignError ''connection refused''))"
  "label_ok stormy = (\<lambda>l. True)"
  "ctx_done stormy = (\<lambda>k. None)"
  by (simp_all add: world_defs)

lemma cancelled_facts:
  "clock cancelled = (\<lambda>k. april_2025)" "marshal cancelled = (\<lambda>v. Inr (render v))"
  "store_reply cancelled = (\<lambda>k c. Some (ForeignError ''connection refused''))"
  "label_ok cancelled = (\<lambda>l. True)"
  "ctx_done cancelled = (\<lambda>k. Some Canceled)"
  by (simp_all add: world_defs)


lemma service_facts:
  "AppEnvironment one_try = ''prod''" "MaxRetries one_try = 1"
  "AppEnvironment prod_service = ''prod''" "MaxRetries prod_service = 3"
  by (simp_all add: one_try_def prod_service_def)

lemmas dispatcher_defs =
  ProcessCategoryOperation_def deferred_metrics_def getCurrentIndexName_def
  processOperation_def
  createCategory_def updateCategory_def deleteCategory_def mustJSON_def
  Now_def request_def emit_def

lemmas run_defs =
  dispatcher_defs validateOperation_def validateCategoryFields_def Operation_defs
  SyncStatusSuccess_def NewESIndexError_def NewSyncError_def ErrCode_defs

subsection \<open>The bulk buffer\<close>

lemma Lock_held [simp]: "mu s \<Longrightarrow> Lock s = None"
  by (simp add: Lock_def)

lemma Lock_free [simp]: "\<not> mu s \<Longrightarrow> Lock s = Some (s\<lparr>mu := True\<rparr>)"
  by (simp add: Lock_def)

lemma processBulkOperations_held: "mu s \<Longrightarrow> processBulkOperations s w = None"
  by (simp add: processBulkOperations_def)

lemma add_below_batch_size:
  assumes "canBulkOperation operation" and "\<not> mu s"
      and "int (length (bulkBuffer s)) + 1 < BatchSize s"
  shows "AddToBulkBuffer s operation w
           = Some (Success, s\<lparr>bulkBuffer := bulkBuffer s @ [operation]\<rparr>, w)"
  using assms
  by (simp add: AddToBulkBuffer_def Let_def Unlock_def)

text \<open>
  Claim C4 says that the add which fills the buffer triggers one flush, that the flush
  completes and that \<open>AddToBulkBuffer\<close> returns. In the code, \<open>AddToBulkBuffer\<close> calls
  \<open>FlushBulkBuffer\<close> while it holds \<open>mu\<close>, and \<open>processBulkOperations\<close> starts by
  locking \<open>mu\<close> again: whenever a supported operation is added with the mutex free and
  the buffer reaches the batch size, the call waits on its own lock and never returns.
  Nothing is sent to the store.
\<close>

theorem full_buffer_add_never_returns:
  assumes "canBulkOperation operation" and "\<not> mu s"
      and "BatchSize s \<le> int (length (bulkBuffer s)) + 1"
  shows "AddToBulkBuffer s operation w = None"
  using assms
  by (simp add: AddToBulkBuffer_def FlushBulkBuffer_def processBulkOperations_held Let_def)

theorem full_buffer_add_never_returns_witness:
  "AddToBulkBuffer (prod_service\<lparr>bulkBuffer := [delete_pulsa]\<rparr>) create_pulsa calm = None"
  using full_buffer_add_never_returns [of create_pulsa
      "prod_service\<lparr>bulkBuffer := [delete_pulsa]\<rparr>" calm]
  by (simp add: canBulkOperation_def IsValidOperation_def prod_service_def create_pulsa_def)

lemma getCurrentIndexName_frame [simp]:
  "trace (snd (getCurrentIndexName s entity w)) = trace w"
  "requests (snd (getCurrentIndexName s entity w)) = requests w"
  "store_reply (snd (getCurrentIndexName s entity w)) = store_reply w"
  "marshal (snd (getCurrentIndexName s entity w)) = marshal w"
  by (simp_all add: getCurrentIndexName_def Now_def)

lemma encodeBulk_frame:
  "trace (snd (encodeBulk s ops buf w)) = trace w
   \<and> requests (snd (encodeBulk s ops buf w)) = requests w
   \<and> store_reply (snd (encodeBulk s ops buf w)) = store_reply w"
proof (induction ops arbitrary: buf w)
  case Nil
  show ?case by simp
next
  case (Cons op ops)
  show ?case
    by (simp add: Cons.IH Let_def split: sum.split)
qed

lemma encodeBulk_error:
  "fst (encodeBulk s ops buf w) = Inl e \<Longrightarrow> \<exists>msg err. e = Errorf msg err"
proof (induction ops arbitrary: buf w)
  case Nil
  then show ?case by simp
next
  case (Cons op ops)
  then show ?case
    by (auto simp: Let_def split: if_splits sum.splits)
qed

lemma bulk_lines_frame:
  "clock w' = clock w \<Longrightarrow> clock_reads w' = clock_reads w \<Longrightarrow>
   AppEnvironment s' = AppEnvironment s \<Longrightarrow> bulk_lines s' ops w' = bulk_lines s ops w"
proof (induction ops arbitrary: w w')
  case Nil
  show ?case by simp
next
  case (Cons op ops)
  have name: "fst (getCurrentIndexName s' ''categories'' w') = fst (getCurrentIndexName s ''categories'' w)"
    using Cons.prems by (simp add: getCurrentIndexName_def Now_def)
  have rest: "bulk_lines s' ops (snd (getCurrentIndexName s' ''categories'' w'))
      = bulk_lines s ops (snd (getCurrentIndexName s ''categories'' w))"
    by (rule Cons.IH) (simp_all add: Cons.prems getCurrentIndexName_def Now_def)
  show ?case
    using Cons.IH [OF Cons.prems] by (simp add: name rest)
qed

lemma encoded_frame: "marshal w' = marshal w \<Longrightarrow> encoded w' = encoded w"
  by (simp add: encoded_def fun_eq_iff)

lemma encodeBulk_result:
  "fst (encodeBulk s ops buf w) =
     (case find (\<lambda>v. isl (marshal w v)) (bulk_lines s ops w) of
        None \<Rightarrow> Inr (buf @ concat (map (encoded w) (bulk_lines s ops w)))
      | Some v \<Rightarrow> Inl (Errorf (encode_failure v) (projl (marshal w v))))"
proof (induction ops arbitrary: buf w)
  case Nil
  show ?case by simp
next
  case (Cons op ops)
  let ?n = "fst (getCurrentIndexName s ''categories'' w)"
  let ?w1 = "snd (getCurrentIndexName s ''categories'' w)"
  have m: "marshal ?w1 = marshal w" by simp
  have e: "encoded ?w1 = encoded w" by (rule encoded_frame) simp
  note ih = Cons.IH [of _ ?w1, unfolded m e]
  have distinct: "OperationCreate \<noteq> OperationUpdate" "OperationCreate \<noteq> OperationDelete"
      "OperationUpdate \<noteq> OperationDelete"
    by (simp_all add: Operation_defs)
  have known: ?case
    if kind: "Operation op = OperationCreate \<and> a = ''index'' \<and> pv = [JCategory (Payload op)]
        \<or> Operation op = OperationUpdate \<and> a = ''update'' \<and> pv = [JUpsert (Payload op)]
        \<or> Operation op = OperationDelete \<and> a = ''delete'' \<and> pv = []"
    for a pv
  proof -
    have lines: "bulk_lines s (op # ops) w
        = JAction a ?n (ID (Payload op)) # pv @ bulk_lines s ops ?w1"
      using kind distinct by auto
    show ?thesis
    proof (cases "marshal w (JAction a ?n (ID (Payload op)))")
      case (Inl err)
      then show ?thesis
        using kind distinct by (auto simp: lines m Let_def split: option.split)
    next
      case action: (Inr line)
      then have enc_action: "encoded w (JAction a ?n (ID (Payload op))) = line @ [CHR 0x0A]"
        by (simp add: encoded_def)
      show ?thesis
      proof (cases pv)
        case Nil
        with kind distinct have del: "Operation op = OperationDelete" by auto
        show ?thesis
          using action Nil del kind distinct enc_action
          by (auto simp: lines m ih Let_def split: option.split)
      next
        case (Cons v vs)
        with kind distinct have v: "pv = [v]" "Operation op \<noteq> OperationDelete"
            "v = (if Operation op = OperationUpdate then JUpsert (Payload op)
                  else JCategory (Payload op))"
          by auto
        show ?thesis
        proof (cases "marshal w v")
          case (Inl err)
          with action v kind distinct show ?thesis
            by (auto simp: lines m Let_def split: option.split)
        next
          case (Inr doc)
          then have "encoded w v = doc @ [CHR 0x0A]" by (simp add: encoded_def)
          with Inr action v kind distinct enc_action show ?thesis
            by (auto simp: lines m ih Let_def split: option.split)
        qed
      qed
    qed
  qed
  show ?case
  proof (cases "Operation op = OperationCreate \<or> Operation op = OperationUpdate
                \<or> Operation op = OperationDelete")
    case True
    then show ?thesis using known by blast
  next
    case False
    then show ?thesis by (simp add: Cons.IH split: option.split)
  qed
qed

lemma find_first:
  "(\<forall>u\<in>set pre. \<not> P u) \<Longrightarrow> P v \<Longrightarrow> find P (pre @ v # post) = Some v"
  by (induction pre) auto

lemma find_nothing: "(\<forall>v\<in>set vs. \<not> P v) \<Longrightarrow> find P vs = None"
  by (simp add: find_None_iff)

lemma bulk_lines_locked [simp]: "bulk_lines (s\<lparr>mu := True\<rparr>) ops w = bulk_lines s ops w"
  by (rule bulk_lines_frame) simp_all

text \<open>
  Claim C5: called with the mutex free, \<open>processBulkOperations\<close> returns, with the mutex
  free again, and never panics. When it returns an error the service, and so the
  buffer, is as it was; when it returns \<open>nil\<close> the buffer is empty. For a non-empty
  buffer, the buffer is emptied exactly when one bulk request was sent and the store
  accepted it; a refused request gives the error \<open>Bulk operation failed\<close> around the
  store's error, and when no request was sent the error is an encoding error. When the
  encoding of one of the values of the buffer fails, the first such failure is returned
  as the error, under the message of its kind, nothing is sent and the service is as it
  was. When every value of a non-empty buffer is encoded, exactly one bulk request is
  sent, and its body is the lines of all these values in their order.
\<close>

theorem failed_flush_keeps_buffer:
  assumes free: "\<not> mu s"
  shows "\<exists>r s' w'. processBulkOperations s w = Some (r, s', w')
           \<and> (\<forall>p. r \<noteq> Panicked p)
           \<and> (\<forall>e. r = Failure e \<longrightarrow> s' = s)
           \<and> (r = Success \<longrightarrow> s' = s\<lparr>bulkBuffer := []\<rparr>)
           \<and> (bulkBuffer s \<noteq> [] \<longrightarrow>
                (bulkBuffer s' = []) =
                (\<exists>body. trace w' = trace w @ [Store (Bulk body)]
                        \<and> store_reply w (requests w) (Bulk body) = None))
           \<and> (\<forall>body err. trace w' = trace w @ [Store (Bulk body)]
                  \<and> store_reply w (requests w) (Bulk body) = Some err \<longrightarrow>
                  r = Failure (NewESIndexError ''Bulk operation failed'' (Some err)))
           \<and> (bulkBuffer s \<noteq> [] \<and> trace w' = trace w \<longrightarrow>
                (\<exists>msg err. r = Failure (Errorf msg err)))
           \<and> (\<forall>pre v post e. bulk_lines s (bulkBuffer s) w = pre @ v # post
                  \<and> (\<forall>u\<in>set pre. \<exists>b. marshal w u = Inr b) \<and> marshal w v = Inl e \<longrightarrow>
                  r = Failure (Errorf (encode_failure v) e) \<and> s' = s \<and> trace w' = trace w)
           \<and> (bulkBuffer s \<noteq> []
                \<and> (\<forall>v\<in>set (bulk_lines s (bulkBuffer s) w). \<exists>b. marshal w v = Inr b) \<longrightarrow>
                trace w' = trace w
                  @ [Store (Bulk (concat (map (encoded w) (bulk_lines s (bulkBuffer s) w))))])"
proof (cases "bulkBuffer s = []")
  case True
  with free show ?thesis
    by (simp add: processBulkOperations_def Unlock_def)
next
  case False
  let ?vs = "bulk_lines s (bulkBuffer s) w"
  obtain enc w1 where enc: "encodeBulk (s\<lparr>mu := True\<rparr>) (bulkBuffer s) [] w = (enc, w1)"
    by (cases "encodeBulk (s\<lparr>mu := True\<rparr>) (bulkBuffer s) [] w")
  have frame: "trace w1 = trace w" "requests w1 = requests w" "store_reply w1 = store_reply w"
    using encodeBulk_frame [of "s\<lparr>mu := True\<rparr>" "bulkBuffer s" "[]" w] enc by simp_all
  have result: "enc = (case find (\<lambda>v. isl (marshal w v)) ?vs of
        None \<Rightarrow> Inr (concat (map (encoded w) ?vs))
      | Some v \<Rightarrow> Inl (Errorf (encode_failure v) (projl (marshal w v))))"
    using encodeBulk_result [of "s\<lparr>mu := True\<rparr>" "bulkBuffer s" "[]" w] enc
    by (simp split: option.split)
  have failing: "enc = Inl (Errorf (encode_failure v) e)"
    if "?vs = pre @ v # post" "\<forall>u\<in>set pre. \<exists>b. marshal w u = Inr b" "marshal w v = Inl e"
    for pre v post e
  proof -
    have "find (\<lambda>v. isl (marshal w v)) (pre @ v # post) = Some v"
      by (rule find_first) (use that in auto)
    with that result show ?thesis by simp
  qed
  have passing: "enc = Inr (concat (map (encoded w) ?vs))"
    if "\<forall>v\<in>set ?vs. \<exists>b. marshal w v = Inr b"
  proof -
    have "find (\<lambda>v. isl (marshal w v)) ?vs = None"
      by (rule find_nothing) (use that in auto)
    with result show ?thesis by simp
  qed
  have not_both: False
    if "?vs = pre @ v # post" "marshal w v = Inl e" "\<forall>v\<in>set ?vs. \<exists>b. marshal w v = Inr b"
    for pre v post e
    using that by auto
  show ?thesis
  proof (cases enc)
    case (Inl e)
    from encodeBulk_error [of "s\<lparr>mu := True\<rparr>" "bulkBuffer s" "[]" w e] enc Inl
    obtain msg err where "e = Errorf msg err" by auto
    moreover have not_all: "\<not> (\<forall>v\<in>set ?vs. \<exists>b. marshal w v = Inr b)"
      using passing Inl by auto
    moreover have "\<forall>pre v post e'. ?vs = pre @ v # post
        \<and> (\<forall>u\<in>set pre. \<exists>b. marshal w u = Inr b) \<and> marshal w v = Inl e'
        \<longrightarrow> e = Errorf (encode_failure v) e'"
      using failing Inl by auto
    ultimately show ?thesis
      using free False enc frame Inl
      by (simp add: processBulkOperations_def Unlock_def)
  next
    case (Inr buf)
    have no_failure: "\<not> (?vs = pre @ v # post
                  \<and> (\<forall>u\<in>set pre. \<exists>b. marshal w u = Inr b) \<and> marshal w v = Inl e)"
      for pre v post e
      using failing [of pre v post e] Inr by auto
    have body: "(\<forall>v\<in>set ?vs. \<exists>b. marshal w v = Inr b) \<longrightarrow> buf = concat (map (encoded w) ?vs)"
      using passing Inr by auto
    show ?thesis
    proof (cases "store_reply w (requests w) (Bulk buf)")
      case None
      with free False enc frame Inr no_failure body show ?thesis
        by (simp add: processBulkOperations_def Unlock_def request_def)
    next
      case (Some err)
      with free False enc frame Inr no_failure body show ?thesis
        by (auto simp add: processBulkOperations_def Unlock_def request_def)
    qed
  qed
qed

lemma stormy_flush:
  "map_option fst (processBulkOperations two_buffered stormy)
     = Some (Failure (NewESIndexError ''Bulk operation failed''
                        (Some (ForeignError ''connection refused''))))"
  by (simp add: processBulkOperations_def two_buffered_def prod_service_def Lock_def
        getCurrentIndexName_def Now_def request_def emit_def stormy_facts format_april
        create_pulsa_def delete_pulsa_def Operation_defs render_def Let_def)

lemma two_buffered_lines:
  "clock w = (\<lambda>k. april_2025) \<Longrightarrow>
   bulk_lines two_buffered (bulkBuffer two_buffered) w =
     [JAction ''index'' ''prod-digital-discovery-categories-2025-04'' ''c1'',
      JCategory (Payload create_pulsa),
      JAction ''delete'' ''prod-digital-discovery-categories-2025-04'' ''c1'']"
  by (simp add: two_buffered_def prod_service_def create_pulsa_def delete_pulsa_def pulsa_def
        Operation_defs getCurrentIndexName_def Now_def format_april)

theorem failed_flush_keeps_buffer_witness:
  "\<not> mu two_buffered
   \<and> bulkBuffer two_buffered = [create_pulsa, delete_pulsa]
   \<and> (\<exists>w'. processBulkOperations two_buffered brittle
          = Some (Failure (Errorf ''failed to encode payload''
                             (ForeignError ''year outside of range [0,9999]'')),
                  two_buffered, w')
        \<and> trace w' = trace brittle)
   \<and> (\<exists>w'. processBulkOperations two_buffered stormy
          = Some (Failure (NewESIndexError ''Bulk operation failed''
                             (Some (ForeignError ''connection refused''))),
                  two_buffered, w')
        \<and> trace w' = trace stormy
            @ [Store (Bulk (concat (map (encoded stormy)
                 [JAction ''index'' ''prod-digital-discovery-categories-2025-04'' ''c1'',
                  JCategory (Payload create_pulsa),
                  JAction ''delete'' ''prod-digital-discovery-categories-2025-04''
                    ''c1''])))])"
proof -
  let ?a = "JAction ''index'' ''prod-digital-discovery-categories-2025-04'' ''c1''"
  let ?d = "JAction ''delete'' ''prod-digital-discovery-categories-2025-04'' ''c1''"
  let ?v = "JCategory (Payload create_pulsa)"
  let ?e = "ForeignError ''year outside of range [0,9999]''"
  have free: "\<not> mu two_buffered" by (simp add: two_buffered_def prod_service_def)
  have clk: "clock brittle = (\<lambda>k. april_2025)" by (simp add: brittle_def calm_def)
  have lines: "bulk_lines two_buffered (bulkBuffer two_buffered) brittle = [?a] @ ?v # [?d]"
    using two_buffered_lines [OF clk] by simp
  have action: "\<forall>u\<in>set [?a]. \<exists>b. marshal brittle u = Inr b"
    by (simp add: brittle_def)
  have payload: "marshal brittle ?v = Inl ?e"
    by (simp add: brittle_def)
  from failed_flush_keeps_buffer [OF free, of brittle]
  obtain r s' w' where run: "processBulkOperations two_buffered brittle = Some (r, s', w')"
      and encoding: "\<forall>pre v post e.
          bulk_lines two_buffered (bulkBuffer two_buffered) brittle = pre @ v # post
          \<and> (\<forall>u\<in>set pre. \<exists>b. marshal brittle u = Inr b) \<and> marshal brittle v = Inl e \<longrightarrow>
          r = Failure (Errorf (encode_failure v) e) \<and> s' = two_buffered
          \<and> trace w' = trace brittle"
    by (elim exE conjE) (rule that)
  have failing: "bulk_lines two_buffered (bulkBuffer two_buffered) brittle = [?a] @ ?v # [?d]
      \<and> (\<forall>u\<in>set [?a]. \<exists>b. marshal brittle u = Inr b) \<and> marshal brittle ?v = Inl ?e"
    using lines action payload by (intro conjI)
  have "r = Failure (Errorf (encode_failure ?v) ?e) \<and> s' = two_buffered
        \<and> trace w' = trace brittle"
    by (rule encoding [rule_format, OF failing])
  with run have first: "\<exists>w'. processBulkOperations two_buffered brittle
          = Some (Failure (Errorf ''failed to encode payload'' ?e), two_buffered, w')
        \<and> trace w' = trace brittle"
    by simp
  have buffer: "bulkBuffer two_buffered = [create_pulsa, delete_pulsa]"
    by (simp add: two_buffered_def)
  have lines2: "bulk_lines two_buffered (bulkBuffer two_buffered) stormy = [?a, ?v, ?d]"
    using two_buffered_lines [OF stormy_facts(1)] by simp
  have "\<forall>v\<in>set (bulk_lines two_buffered (bulkBuffer two_buffered) stormy).
          \<exists>b. marshal stormy v = Inr b"
    by (simp add: stormy_facts)
  with buffer
  have passing: "bulkBuffer two_buffered \<noteq> []
      \<and> (\<forall>v\<in>set (bulk_lines two_buffered (bulkBuffer two_buffered) stormy).
            \<exists>b. marshal stormy v = Inr b)"
    by simp
  from failed_flush_keeps_buffer [OF free, of stormy]
  obtain r2 s2 w2 where run2: "processBulkOperations two_buffered stormy = Some (r2, s2, w2)"
      and kept: "\<forall>e. r2 = Failure e \<longrightarrow> s2 = two_buffered"
      and sent: "bulkBuffer two_buffered \<noteq> []
          \<and> (\<forall>v\<in>set (bulk_lines two_buffered (bulkBuffer two_buffered) stormy).
                \<exists>b. marshal stormy v = Inr b) \<longrightarrow>
          trace w2 = trace stormy
            @ [Store (Bulk (concat (map (encoded stormy)
                 (bulk_lines two_buffered (bulkBuffer two_buffered) stormy))))]"
    by (elim exE conjE) (rule that)
  have "trace w2 = trace stormy
          @ [Store (Bulk (concat (map (encoded stormy)
               (bulk_lines two_buffered (bulkBuffer two_buffered) stormy))))]"
    by (rule sent [rule_format, OF passing])
  then have request: "trace w2 = trace stormy
          @ [Store (Bulk (concat (map (encoded stormy) [?a, ?v, ?d])))]"
    by (simp only: lines2)
  from run2 stormy_flush
  have "r2 = Failure (NewESIndexError ''Bulk operation failed''
                       (Some (ForeignError ''connection refused'')))"
    by simp
  with run2 kept request have second: "\<exists>w'. processBulkOperations two_buffered stormy
          = Some (Failure (NewESIndexError ''Bulk operation failed''
                             (Some (ForeignError ''connection refused''))),
                  two_buffered, w')
        \<and> trace w' = trace stormy
            @ [Store (Bulk (concat (map (encoded stormy) [?a, ?v, ?d])))]"
    by simp
  from free buffer first second show ?thesis by (intro conjI)
qed

subsection \<open>What the dispatcher and a wait add to the trace\<close>

lemma ProcessCategoryOperation_trace:
  "\<exists>ext. trace (snd (ProcessCategoryOperation s operation w)) = trace w @ Invoked operation # ext
         \<and> (\<forall>e\<in>set ext. store_event e)"
  by (simp add: dispatcher_defs Let_def split: sum.split option.split)

lemma ProcessCategoryOperation_ctx [simp]:
  "ctx_done (snd (ProcessCategoryOperation s operation w)) = ctx_done w"
  "waits (snd (ProcessCategoryOperation s operation w)) = waits w"
  by (simp_all add: dispatcher_defs Let_def split: sum.split option.split)

lemma wait_frame [simp]:
  "trace (snd (wait w)) = trace w @ [Waited (ctx_done w (waits w))]"
  "ctx_done (snd (wait w)) = ctx_done w"
  "waits (snd (wait w)) = waits w + 1"
  by (simp_all add: wait_def emit_def)

lemma store_event_facts:
  assumes "\<forall>e\<in>set ext. store_event e"
  shows "\<forall>e\<in>set ext. \<not> consumer_event e" and "filter invoked ext = []"
    and "\<forall>e\<in>set ext. e \<noteq> Waited x"
proof -
  have "\<not> consumer_event e \<and> \<not> invoked e \<and> e \<noteq> Waited x" if "store_event e" for e
    using that by (cases e) auto
  with assms show "\<forall>e\<in>set ext. \<not> consumer_event e" "filter invoked ext = []"
    "\<forall>e\<in>set ext. e \<noteq> Waited x"
    by (auto simp: filter_empty_conv)
qed

lemma split_after_prefix:
  assumes "\<forall>e\<in>set a. e \<noteq> x" and "a @ b = pre @ x # post"
  shows "\<exists>pre'. pre = a @ pre' \<and> b = pre' @ x # post"
  using assms
proof (induction a arbitrary: pre)
  case Nil
  then show ?case by simp
next
  case (Cons y a)
  then show ?case by (cases pre) auto
qed

subsection \<open>The retry loop, step by step\<close>

lemma retry_loop_exhausted:
  "\<not> attempt < MaxRetries s \<Longrightarrow>
   retry_loop s operation attempt lastErr h w =
     (Failure (exhausted s operation lastErr), h\<lparr>HistoryStatus := ''FAILED''\<rparr>, w)"
  by (subst retry_loop.simps) (simp add: exhausted_def)

lemma retry_loop_panic:
  "attempt < MaxRetries s \<Longrightarrow>
   ProcessCategoryOperation s (Some operation) w = (Panicked p, w1) \<Longrightarrow>
   retry_loop s operation attempt lastErr h w = (Panicked p, h, w1)"
  by (subst retry_loop.simps) simp

lemma retry_loop_success:
  "attempt < MaxRetries s \<Longrightarrow>
   ProcessCategoryOperation s (Some operation) w = (Success, w1) \<Longrightarrow>
   retry_loop s operation attempt lastErr h w =
     (Success, (attempted h attempt None)\<lparr>HistoryStatus := ''SUCCESS''\<rparr>, w1)"
  by (subst retry_loop.simps) (simp add: attempted_def)

lemma retry_loop_cancel:
  "attempt < MaxRetries s \<Longrightarrow>
   ProcessCategoryOperation s (Some operation) w = (Failure err, w1) \<Longrightarrow>
   ctx_done w1 (waits w1) = Some c \<Longrightarrow>
   retry_loop s operation attempt lastErr h w =
     (Failure (ContextError c),
      (attempted h attempt (Some err))\<lparr>HistoryStatus := ''CANCELLED''\<rparr>, snd (wait w1))"
  by (subst retry_loop.simps) (simp add: attempted_def wait_def Let_def)

lemma retry_loop_again:
  "attempt < MaxRetries s \<Longrightarrow>
   ProcessCategoryOperation s (Some operation) w = (Failure err, w1) \<Longrightarrow>
   ctx_done w1 (waits w1) = None \<Longrightarrow>
   retry_loop s operation attempt lastErr h w =
     retry_loop s operation (attempt + 1) (Some err) (attempted h attempt (Some err))
       (snd (wait w1))"
  by (subst retry_loop.simps) (simp add: attempted_def wait_def Let_def)

text \<open>
  Induction over a run of the loop: a property of the result that holds where the loop
  ends, and that is handed down by an attempt followed by a wait that the timer wins.
\<close>

lemma retry_loop_run [case_names exhausted panic success cancel again]:
  assumes exhausted: "\<And>attempt lastErr h w. \<not> attempt < MaxRetries s \<Longrightarrow>
            P attempt lastErr h w
              (Failure (exhausted s operation lastErr), h\<lparr>HistoryStatus := ''FAILED''\<rparr>, w)"
      and panic: "\<And>attempt lastErr h w p w1. attempt < MaxRetries s \<Longrightarrow>
            ProcessCategoryOperation s (Some operation) w = (Panicked p, w1) \<Longrightarrow>
            P attempt lastErr h w (Panicked p, h, w1)"
      and success: "\<And>attempt lastErr h w w1. attempt < MaxRetries s \<Longrightarrow>
            ProcessCategoryOperation s (Some operation) w = (Success, w1) \<Longrightarrow>
            P attempt lastErr h w
              (Success, (attempted h attempt None)\<lparr>HistoryStatus := ''SUCCESS''\<rparr>, w1)"
      and cancel: "\<And>attempt lastErr h w err w1 c. attempt < MaxRetries s \<Longrightarrow>
            ProcessCategoryOperation s (Some operation) w = (Failure err, w1) \<Longrightarrow>
            ctx_done w1 (waits w1) = Some c \<Longrightarrow>
            P attempt lastErr h w
              (Failure (ContextError c),
               (attempted h attempt (Some err))\<lparr>HistoryStatus := ''CANCELLED''\<rparr>,
               snd (wait w1))"
      and again: "\<And>attempt lastErr h w err w1 res. attempt < MaxRetries s \<Longrightarrow>
            ProcessCategoryOperation s (Some operation) w = (Failure err, w1) \<Longrightarrow>
            ctx_done w1 (waits w1) = None \<Longrightarrow>
            P (attempt + 1) (Some err) (attempted h attempt (Some err)) (snd (wait w1)) res \<Longrightarrow>
            P attempt lastErr h w res"
  shows "P attempt lastErr h w (retry_loop s operation attempt lastErr h w)"
proof (induction "nat (MaxRetries s - attempt)" arbitrary: attempt lastErr h w)
  case 0
  then have "\<not> attempt < MaxRetries s" by simp
  then show ?case by (simp add: retry_loop_exhausted exhausted)
next
  case (Suc k)
  then have less: "attempt < MaxRetries s" by simp
  obtain r w1 where run: "ProcessCategoryOperation s (Some operation) w = (r, w1)"
    by (cases "ProcessCategoryOperation s (Some operation) w")
  show ?case
  proof (cases r)
    case Success
    with less run show ?thesis by (simp add: retry_loop_success success)
  next
    case (Panicked p)
    with less run show ?thesis by (simp add: retry_loop_panic panic)
  next
    case (Failure err)
    show ?thesis
    proof (cases "ctx_done w1 (waits w1)")
      case (Some c)
      with less run Failure show ?thesis by (simp add: retry_loop_cancel cancel)
    next
      case None
      have k: "k = nat (MaxRetries s - (attempt + 1))" using Suc.hyps(2) by simp
      have "P (attempt + 1) (Some err) (attempted h attempt (Some err)) (snd (wait w1))
              (retry_loop s operation (attempt + 1) (Some err) (attempted h attempt (Some err))
                 (snd (wait w1)))"
        using k by (rule Suc.hyps(1))
      with less run Failure None show ?thesis
        by (simp add: retry_loop_again again)
    qed
  qed
qed

lemma retry_post_again:
  assumes "attempt < MaxRetries s"
      and "retry_post s operation (attempt + 1) (Some err) new st r st'"
  shows "retry_post s operation attempt lastErr
           (\<lparr>Attempt = attempt + 1, Error = Some err\<rparr> # new) st r st'"
proof (cases "new = []")
  case True
  with assms show ?thesis
    by (cases r) (auto simp: retry_post_def)
next
  case False
  with assms show ?thesis
    by (cases r) (auto simp: retry_post_def)
qed

lemma retry_events_exhausted: "retry_events operation 0 [] (Failure (exhausted s operation lastErr))"
  by (simp add: retry_events_def exhausted_def NewSyncError_def)

lemma retry_events_panic:
  assumes "\<forall>e\<in>set ext. store_event e"
  shows "retry_events operation 0 (Invoked (Some operation) # ext) (Panicked p)"
proof -
  have "pre @ Waited (Some c) # post \<noteq> Invoked (Some operation) # ext" for pre c post
    using split_after_prefix [of "Invoked (Some operation) # ext" "Waited (Some c)" "[]" pre post]
      store_event_facts(3) [OF assms] by auto
  then show ?thesis
    using store_event_facts [OF assms] 
    by (simp add: retry_events_def) metis
qed

lemma retry_events_success:
  assumes "\<forall>e\<in>set ext. store_event e"
  shows "retry_events operation 1 (Invoked (Some operation) # ext) Success"
proof -
  have "pre @ Waited (Some c) # post \<noteq> Invoked (Some operation) # ext" for pre c post
    using split_after_prefix [of "Invoked (Some operation) # ext" "Waited (Some c)" "[]" pre post]
      store_event_facts(3) [OF assms] by auto
  then show ?thesis
    using store_event_facts [OF assms] 
    by (simp add: retry_events_def) metis
qed

lemma retry_events_cancel:
  assumes "\<forall>e\<in>set ext. store_event e"
  shows "retry_events operation 1 (Invoked (Some operation) # ext @ [Waited (Some c)])
           (Failure (ContextError c))"
proof -
  have "post = [] \<and> c' = c"
    if "Invoked (Some operation) # ext @ [Waited (Some c)] = pre @ Waited (Some c') # post"
    for pre c' post
  proof -
    from that have "(Invoked (Some operation) # ext) @ [Waited (Some c)] = pre @ Waited (Some c') # post"
      by simp
    from split_after_prefix [OF _ this] store_event_facts(3) [OF assms]
    obtain pre' where "[Waited (Some c)] = pre' @ Waited (Some c') # post" by auto
    then show ?thesis by (cases pre') auto
  qed
  then show ?thesis
    using store_event_facts [OF assms]
    by (simp add: retry_events_def) blast
qed

lemma retry_events_again:
  assumes ext: "\<forall>e\<in>set ext. store_event e"
      and rest: "retry_events operation n tr r"
  shows "retry_events operation (Suc n) (Invoked (Some operation) # ext @ [Waited None] @ tr) r"
proof -
  let ?a = "Invoked (Some operation) # ext @ [Waited None]"
  have quiet: "\<forall>e\<in>set ?a. e \<noteq> Waited (Some c)" for c
    using store_event_facts(3) [OF ext] by auto
  have cancel: "post = [] \<and> r = Failure (ContextError c)"
    if "?a @ tr = pre @ Waited (Some c) # post" for pre c post
  proof -
    from split_after_prefix [OF quiet that]
    obtain pre' where "tr = pre' @ Waited (Some c) # post" by auto
    with rest show ?thesis by (auto simp: retry_events_def)
  qed
  have last: "?a @ tr \<noteq> [] \<and> last (?a @ tr) = Waited (Some c)" if "r = Failure (ContextError c)" for c
    using rest that by (auto simp: retry_events_def)
  have inv: "filter invoked (?a @ tr) =
      replicate (Suc n + (case r of Panicked p \<Rightarrow> 1 | _ \<Rightarrow> 0)) (Invoked (Some operation))"
    using rest store_event_facts(2) [OF ext] by (simp add: retry_events_def)
  have cons: "\<forall>e\<in>set (?a @ tr). \<not> consumer_event e"
    using rest store_event_facts(1) [OF ext] by (auto simp: retry_events_def)
  have "retry_events operation (Suc n) (?a @ tr) r"
    unfolding retry_events_def using cons inv cancel last by blast
  then show ?thesis by simp
qed

lemma retry_loop_summary:
  "case retry_loop s operation attempt lastErr h w of (r, h', w') \<Rightarrow>
     \<exists>new tr. Attempts h' = Attempts h @ new \<and> trace w' = trace w @ tr
       \<and> retry_post s operation attempt lastErr new (HistoryStatus h) r (HistoryStatus h')
       \<and> retry_events operation (length new) tr r"
proof (rule retry_loop_run [where P = "\<lambda>attempt lastErr h w res.
    case res of (r, h', w') \<Rightarrow>
     \<exists>new tr. Attempts h' = Attempts h @ new \<and> trace w' = trace w @ tr
       \<and> retry_post s operation attempt lastErr new (HistoryStatus h) r (HistoryStatus h')
       \<and> retry_events operation (length new) tr r"],
    goal_cases)
  case (1 attempt lastErr h w)
  then show ?case by (simp add: retry_post_def retry_events_exhausted)
next
  case (2 attempt lastErr h w p w1)
  from ProcessCategoryOperation_trace [of s "Some operation" w] 2(2)
  obtain ext where ext: "trace w1 = trace w @ Invoked (Some operation) # ext"
      "\<forall>e\<in>set ext. store_event e"
    by auto
  have "retry_post s operation attempt lastErr [] (HistoryStatus h) (Panicked p) (HistoryStatus h)"
    using 2(1) by (simp add: retry_post_def)
  with ext retry_events_panic [OF ext(2), of operation p] show ?case by auto
next
  case (3 attempt lastErr h w w1)
  from ProcessCategoryOperation_trace [of s "Some operation" w] 3(2)
  obtain ext where ext: "trace w1 = trace w @ Invoked (Some operation) # ext"
      "\<forall>e\<in>set ext. store_event e"
    by auto
  have "retry_post s operation attempt lastErr [\<lparr>Attempt = attempt + 1, Error = None\<rparr>]
          (HistoryStatus h) Success ''SUCCESS''"
    using 3(1) by (simp add: retry_post_def)
  with ext retry_events_success [OF ext(2), of operation] show ?case
    by (auto simp: attempted_def)
next
  case (4 attempt lastErr h w err w1 c)
  from ProcessCategoryOperation_trace [of s "Some operation" w] 4(2)
  obtain ext where ext: "trace w1 = trace w @ Invoked (Some operation) # ext"
      "\<forall>e\<in>set ext. store_event e"
    by auto
  have "retry_post s operation attempt lastErr [\<lparr>Attempt = attempt + 1, Error = Some err\<rparr>]
          (HistoryStatus h) (Failure (ContextError c)) ''CANCELLED''"
    using 4(1) by (simp add: retry_post_def)
  with ext 4(3) retry_events_cancel [OF ext(2), of operation c] show ?case
    by (auto simp: attempted_def)
next
  case (5 attempt lastErr h w err w1 res)
  from ProcessCategoryOperation_trace [of s "Some operation" w] 5(2)
  obtain ext where ext: "trace w1 = trace w @ Invoked (Some operation) # ext"
      "\<forall>e\<in>set ext. store_event e"
    by auto
  obtain r h' w' where res: "res = (r, h', w')" by (cases res)
  with 5(4) obtain new tr
    where new: "Attempts h' = Attempts h @ \<lparr>Attempt = attempt + 1, Error = Some err\<rparr> # new"
      and tr: "trace w' = trace (snd (wait w1)) @ tr"
      and post: "retry_post s operation (attempt + 1) (Some err) new (HistoryStatus h) r
                   (HistoryStatus h')"
      and events: "retry_events operation (length new) tr r"
    by (auto simp: attempted_def)
  have tr': "trace w' = trace w @ Invoked (Some operation) # ext @ [Waited None] @ tr"
    using tr ext(1) 5(3) by simp
  from retry_post_again [OF 5(1) post] retry_events_again [OF ext(2) events] new tr' res
  show ?case by auto
qed

subsection \<open>Runs of the examples\<close>

lemma stormy_attempt:
  assumes "AppEnvironment s = ''prod''"
      and "clock w = (\<lambda>k. april_2025)" and "marshal w = (\<lambda>v. Inr (render v))"
      and "store_reply w = (\<lambda>k c. Some (ForeignError ''connection refused''))"
      and "label_ok w = (\<lambda>l. True)"
  shows "ProcessCategoryOperation s (Some create_pulsa) w =
     (Failure (NewESIndexError ''Failed to index category''
                 (Some (ForeignError ''connection refused''))),
      w\<lparr>clock_reads := clock_reads w + 2, requests := requests w + 1,
        trace := trace w @ [Invoked (Some create_pulsa),
                  Store (Index ''prod-digital-discovery-categories-2025-04'' ''c1''
                           ''{id:c1,sync_status:SUCCESS}'')]\<rparr>)"
  using assms
  by (simp add: run_defs format_april create_pulsa_def pulsa_def render_def Let_def)



lemma cancelled_run:
  assumes env: "AppEnvironment s = ''prod''" "0 < MaxRetries s"
  shows "retry_loop s create_pulsa 0 None \<lparr>Attempts = [], HistoryStatus = ''IN_PROGRESS''\<rparr> cancelled
      = (Failure (ContextError Canceled),
         \<lparr>Attempts = [\<lparr>Attempt = 1, Error = Some (NewESIndexError ''Failed to index category''
                            (Some (ForeignError ''connection refused'')))\<rparr>],
          HistoryStatus = ''CANCELLED''\<rparr>,
         cancelled\<lparr>clock_reads := 2, requests := 1, waits := 1,
           trace := [Invoked (Some create_pulsa),
                     Store (Index ''prod-digital-discovery-categories-2025-04'' ''c1''
                              ''{id:c1,sync_status:SUCCESS}''),
                     Waited (Some Canceled)]\<rparr>)"
proof -
  note first = stormy_attempt [OF env(1) cancelled_facts(1-4)]
  have "retry_loop s create_pulsa 0 None \<lparr>Attempts = [], HistoryStatus = ''IN_PROGRESS''\<rparr> cancelled
      = (Failure (ContextError Canceled),
      (attempted \<lparr>Attempts = [], HistoryStatus = ''IN_PROGRESS''\<rparr> 0
         (Some (NewESIndexError ''Failed to index category''
                            (Some (ForeignError ''connection refused'')))))\<lparr>HistoryStatus := ''CANCELLED''\<rparr>,
      snd (wait (cancelled\<lparr>clock_reads := clock_reads cancelled + 2,
        requests := requests cancelled + 1,
        trace := trace cancelled @ [Invoked (Some create_pulsa),
                  Store (Index ''prod-digital-discovery-categories-2025-04'' ''c1''
                           ''{id:c1,sync_status:SUCCESS}'')]\<rparr>)))"
    by (rule retry_loop_cancel [OF _ first]) (simp_all add: env cancelled_facts)
  then show ?thesis
    by (simp add: attempted_def wait_def emit_def world_defs)
qed

subsection \<open>Cancellation during a wait\<close>

text \<open>
  Claim C8: when, in a run of \<open>RetryWithBackoff\<close>, a wait between attempts is ended by the
  context (with error \<open>c\<close>), that wait is the last event of the run: the dispatcher is
  not entered again and nothing more is sent to the store, and the result is the
  context's error.
\<close>

theorem cancellation_stops_retry:
  assumes run: "RetryWithBackoff s (Some operation) w = (r, w')"
      and cancelled: "trace w' = trace w @ pre @ Waited (Some c) # post"
  shows "post = [] \<and> r = Failure (ContextError c)"
proof -
  let ?h0 = "\<lparr>Attempts = [], HistoryStatus = ''IN_PROGRESS''\<rparr>"
  obtain r0 h w0 where loop: "retry_loop s operation 0 None ?h0 w = (r0, h, w0)"
    by (cases "retry_loop s operation 0 None ?h0 w")
  from retry_loop_summary [where s = s and operation = operation and attempt = 0
      and lastErr = None and h = ?h0 and w = w] loop
  obtain new tr where tr: "trace w0 = trace w @ tr"
      and post: "retry_post s operation 0 None new ''IN_PROGRESS'' r0 (HistoryStatus h)"
      and events: "retry_events operation (length new) tr r0"
    by auto
  have w0: "w' = w0"
    using run loop by (simp add: RetryWithBackoff_def split: option.splits)
  with cancelled tr have "tr = pre @ Waited (Some c) # post" by simp
  with events have stop: "post = []" and r0: "r0 = Failure (ContextError c)"
    by (auto simp: retry_events_def)
  from post r0 have "HistoryStatus h = ''CANCELLED''"
    by (auto simp: retry_post_def exhausted_def NewSyncError_def)
  then have "cleanup h = None" by (simp add: cleanup_def)
  with run loop have "r = r0" by (simp add: RetryWithBackoff_def)
  with stop r0 show ?thesis by simp
qed

theorem cancellation_stops_retry_witness:
  "MaxRetries prod_service = 3
   \<and> RetryWithBackoff prod_service (Some create_pulsa) cancelled
       = (Failure (ContextError Canceled),
          cancelled\<lparr>clock_reads := 2, requests := 1, waits := 1,
            trace := [Invoked (Some create_pulsa),
                      Store (Index ''prod-digital-discovery-categories-2025-04'' ''c1''
                               ''{id:c1,sync_status:SUCCESS}''),
                      Waited (Some Canceled)]\<rparr>)"
proof -
  let ?w' = "cancelled\<lparr>clock_reads := 2, requests := 1, waits := 1,
            trace := [Invoked (Some create_pulsa),
                      Store (Index ''prod-digital-discovery-categories-2025-04'' ''c1''
                               ''{id:c1,sync_status:SUCCESS}''),
                      Waited (Some Canceled)]\<rparr>"
  have "(0::int) < MaxRetries prod_service" by (simp add: service_facts)
  note loop = cancelled_run [OF service_facts(3) this]
  obtain r where run: "RetryWithBackoff prod_service (Some create_pulsa) cancelled = (r, ?w')"
    by (simp add: RetryWithBackoff_def loop cleanup_def)
  have tr: "trace ?w' = trace cancelled
      @ [Invoked (Some create_pulsa),
         Store (Index ''prod-digital-discovery-categories-2025-04'' ''c1''
                  ''{id:c1,sync_status:SUCCESS}'')]
      @ Waited (Some Canceled) # []"
    by (simp add: world_defs)
  from cancellation_stops_retry [OF run tr] run show ?thesis
    by (simp add: service_facts)
qed

subsection \<open>The bound on the attempts\<close>




subsection \<open>The consumer loop\<close>














end
